theory Spec2Isabelle
  imports Main
begin

section \<open>Python strings\<close>

text \<open>
  A Python \<open>str\<close> is a sequence of Unicode code points. It is modelled as a
  \<open>string\<close> whose characters are the code points U+0000 to U+00FF (\<open>of_char c\<close> is
  the code point of \<open>c\<close>), so the ASCII range and the Latin-1 supplement are covered and
  \<open>length\<close> counts code points. The character classes below are those of
  \<open>str.isspace\<close>, \<open>str.isalnum\<close> and \<open>str.lower\<close> on that range.
\<close>

definition code_point :: "char \<Rightarrow> nat" where
  "code_point c = of_char c"

definition py_isspace :: "char \<Rightarrow> bool" where
  "py_isspace c =
     (let n = code_point c
      in (9 \<le> n \<and> n \<le> 13) \<or> (28 \<le> n \<and> n \<le> 32) \<or> n = 133 \<or> n = 160)"

definition py_isalnum :: "char \<Rightarrow> bool" where
  "py_isalnum c =
     (let n = code_point c
      in (48 \<le> n \<and> n \<le> 57) \<or> (65 \<le> n \<and> n \<le> 90) \<or> (97 \<le> n \<and> n \<le> 122)
         \<or> n = 170 \<or> n = 178 \<or> n = 179 \<or> n = 181 \<or> n = 185 \<or> n = 186
         \<or> (188 \<le> n \<and> n \<le> 190)
         \<or> (192 \<le> n \<and> n \<le> 214) \<or> (216 \<le> n \<and> n \<le> 246) \<or> 248 \<le> n)"

text \<open>The ASCII letters and digits: the character class the claim about table names speaks of.\<close>

definition ascii_alnum :: "char \<Rightarrow> bool" where
  "ascii_alnum c =
     (let n = code_point c
      in (48 \<le> n \<and> n \<le> 57) \<or> (65 \<le> n \<and> n \<le> 90) \<or> (97 \<le> n \<and> n \<le> 122))"

definition lower_char :: "char \<Rightarrow> char" where
  "lower_char c =
     (let n = code_point c
      in if (65 \<le> n \<and> n \<le> 90) \<or> (192 \<le> n \<and> n \<le> 222 \<and> n \<noteq> 215)
         then char_of (n + 32) else c)"

definition py_lower :: "string \<Rightarrow> string" where
  "py_lower s = map lower_char s"

text \<open>\<open>s.strip()\<close>: whitespace removed at both ends.\<close>

definition py_strip :: "string \<Rightarrow> string" where
  "py_strip s = rev (dropWhile py_isspace (rev (dropWhile py_isspace s)))"

text \<open>
  \<open>s.split(sep)\<close> for a one-character separator: the result is never empty, and an
  empty string gives one empty field. The \<open>[]\<close> branch of the \<open>case\<close> is never taken.
\<close>

fun py_split :: "char \<Rightarrow> string \<Rightarrow> string list" where
  "py_split sep [] = [[]]"
| "py_split sep (c # cs) =
     (if c = sep then [] # py_split sep cs
      else (case py_split sep cs of
              [] \<Rightarrow> [[c]]
            | p # ps \<Rightarrow> (c # p) # ps))"

text \<open>\<open>sep.join(xs)\<close>.\<close>

fun py_join :: "string \<Rightarrow> string list \<Rightarrow> string" where
  "py_join sep [] = []"
| "py_join sep [x] = x"
| "py_join sep (x # y # ys) = x @ sep @ py_join sep (y # ys)"

text \<open>
  The slices \<open>xs[:k]\<close> and \<open>xs[k:]\<close>: a negative bound counts from the end, and a
  bound outside the list is clamped.
\<close>

definition slice_to :: "int \<Rightarrow> 'a list \<Rightarrow> 'a list" where
  "slice_to k xs = (if 0 \<le> k then take (nat k) xs else take (length xs - nat (- k)) xs)"

definition slice_from :: "int \<Rightarrow> 'a list \<Rightarrow> 'a list" where
  "slice_from k xs = (if 0 \<le> k then drop (nat k) xs else drop (length xs - nat (- k)) xs)"

text \<open>
  \<open>s.replace(old, new)\<close>: every non-overlapping occurrence of \<open>old\<close>, found from the
  left. With an empty \<open>old\<close> Python puts \<open>new\<close> before every character and at the end.
\<close>

function py_replace :: "string \<Rightarrow> string \<Rightarrow> string \<Rightarrow> string" where
  "py_replace [] new s = new @ concat (map (\<lambda>c. c # new) s)"
| "py_replace (a # old) new [] = []"
| "py_replace (a # old) new (c # cs) =
     (if take (length (a # old)) (c # cs) = a # old
      then new @ py_replace (a # old) new (drop (length (a # old)) (c # cs))
      else c # py_replace (a # old) new cs)"
  by pat_completeness auto
termination
  by (relation "measure (\<lambda>(old, new, s). length s)") auto

text \<open>\<open>str(n)\<close> for an integer: its decimal digits, with a minus sign when negative.\<close>

fun digits :: "nat \<Rightarrow> string" where
  "digits n =
     (if n < 10 then [char_of (48 + n)]
      else digits (n div 10) @ [char_of (48 + n mod 10)])"

definition str_int :: "int \<Rightarrow> string" where
  "str_int i = (if i < 0 then CHR ''-'' # digits (nat (- i)) else digits (nat i))"

section \<open>Data frames\<close>

text \<open>
  A pandas column label is any Python object; \<open>read_csv\<close> gives strings from a header
  line and integers when it is told that there is no header. A cell is null (NaN, None)
  or holds a value. A frame keeps its labels in order and its rows in order.
\<close>

datatype label = LStr string | LInt int

datatype cell = Null | IntV int | FloatV int int | TextV string | BoolV bool | TimestampV int

record dataframe =
  columns :: "label list"
  rows :: "cell list list"

text \<open>\<open>str(col)\<close>.\<close>

fun py_str :: "label \<Rightarrow> string" where
  "py_str (LStr s) = s"
| "py_str (LInt i) = str_int i"

text \<open>\<open>df.empty\<close>: some axis has length zero. \<open>len(df)\<close> is the number of rows.\<close>

definition df_empty :: "dataframe \<Rightarrow> bool" where
  "df_empty df = (rows df = [] \<or> columns df = [])"

definition df_len :: "dataframe \<Rightarrow> nat" where
  "df_len df = length (rows df)"

definition cell_at :: "cell list \<Rightarrow> nat \<Rightarrow> cell" where
  "cell_at r j = (if j < length r then r ! j else Null)"

text \<open>
  \<open>df.dropna(axis=1, how='all')\<close>: a column stays when some row holds a value in it.
  The rows keep their number and order.
\<close>

definition kept_columns :: "dataframe \<Rightarrow> nat list" where
  "kept_columns df =
     filter (\<lambda>j. \<exists>r \<in> set (rows df). cell_at r j \<noteq> Null) [0 ..< length (columns df)]"

definition dropna_all :: "dataframe \<Rightarrow> dataframe" where
  "dropna_all df =
     \<lparr>columns = map (\<lambda>j. columns df ! j) (kept_columns df),
      rows = map (\<lambda>r. map (cell_at r) (kept_columns df)) (rows df)\<rparr>"

text \<open>\<open>df.where(pd.notnull(df), None)\<close>: a cell that is not null is kept, a null one becomes None.\<close>

definition where_notnull :: "dataframe \<Rightarrow> dataframe" where
  "where_notnull df = df\<lparr>rows := map (map (\<lambda>c. if c \<noteq> Null then c else Null)) (rows df)\<rparr>"

section \<open>Table and column names\<close>

text \<open>
  From \<open>DataManager.create_raw_table\<close>:
  \<^verbatim>\<open>
  table_name = filename.lower().replace('.csv', '').replace('.xlsx', '').replace('.xls', '')
  table_name = ''.join(c if c.isalnum() or c == '_' else '_' for c in table_name)
  table_name = f"raw_{table_name}"
  df.columns = [str(col).lower().replace(' ', '_').replace('-', '_').replace('.', '_')
                for col in df.columns]
  \<close>
\<close>

definition clean_char :: "char \<Rightarrow> char" where
  "clean_char c = (if py_isalnum c \<or> c = CHR ''_'' then c else CHR ''_'')"

definition table_name_of :: "string \<Rightarrow> string" where
  "table_name_of filename =
     ''raw_'' @ map clean_char
       (py_replace ''.xls'' '''' (py_replace ''.xlsx'' '''' (py_replace ''.csv'' ''''
          (py_lower filename))))"

definition normalize_col :: "label \<Rightarrow> string" where
  "normalize_col col =
     py_replace ''.'' ''_'' (py_replace ''-'' ''_'' (py_replace '' '' ''_''
       (py_lower (py_str col))))"

section \<open>The collaborators\<close>

text \<open>
  pandas, the text codec of \<open>open\<close> and DuckDB are libraries, not code of this
  repository. They are parameters of the model:
  \<^item> \<open>read_csv kwargs bytes\<close> is \<open>pd.read_csv(path, **kwargs)\<close> on a file with these
    bytes: the text of the exception it raises, or the frame it returns;
  \<^item> \<open>read_excel bytes\<close> is \<open>pd.read_excel(path)\<close>;
  \<^item> \<open>decode_text bytes\<close> is what \<open>open(path, 'r', encoding='utf-8', errors='ignore')\<close>
    reads (undecodable bytes left out, line ends translated to a newline), and
    \<open>encode_text\<close> what \<open>open(path, 'w', encoding='utf-8')\<close> writes;
  \<^item> \<open>db_raises stmt\<close> is the text of the exception DuckDB raises on a statement, if it
    raises.
  The keyword arguments of a parse attempt are a dictionary, kept as an association list.
\<close>

datatype kwarg = KStr string | KBool bool | KNone

type_synonym kwargs = "(string \<times> kwarg) list"

datatype db_stmt =
    Connect
  | DropTable string
  | Register dataframe
  | CreateTable string dataframe
  | CountRows string

record env =
  read_csv :: "kwargs \<Rightarrow> string \<Rightarrow> string + dataframe"
  read_excel :: "string \<Rightarrow> string + dataframe"
  decode_text :: "string \<Rightarrow> string"
  encode_text :: "string \<Rightarrow> string"
  db_raises :: "db_stmt \<Rightarrow> string option"

section \<open>Persisting a frame\<close>

text \<open>
  The \<open>raw\<close> schema of the database is a map from table names to frames.
  \<open>DROP TABLE IF EXISTS raw.t\<close> removes the binding of \<open>t\<close>;
  \<open>CREATE TABLE raw.t AS SELECT * FROM temp_df\<close> binds \<open>t\<close> to the registered frame.
  Each statement is committed on its own: the code opens no transaction. An exception
  of any statement leaves \<open>create_raw_table\<close> at once (it is logged and raised again).
\<close>

type_synonym database = "string \<rightharpoonup> dataframe"

definition create_raw_table ::
  "env \<Rightarrow> database \<Rightarrow> string \<Rightarrow> dataframe \<Rightarrow> (string + string) \<times> database" where
  "create_raw_table e db filename df =
     (case db_raises e Connect of
        Some err \<Rightarrow> (Inl err, db)
      | None \<Rightarrow>
          let table_name = table_name_of filename;
              df1 = df\<lparr>columns := map (\<lambda>col. LStr (normalize_col col)) (columns df)\<rparr>;
              df2 = dropna_all df1;
              df3 = where_notnull df2
          in (case db_raises e (DropTable table_name) of
                Some err \<Rightarrow> (Inl err, db)
              | None \<Rightarrow>
                  let db1 = db(table_name := None)
                  in (case db_raises e (Register df3) of
                        Some err \<Rightarrow> (Inl err, db1)
                      | None \<Rightarrow>
                          (case db_raises e (CreateTable table_name df3) of
                             Some err \<Rightarrow> (Inl err, db1)
                           | None \<Rightarrow>
                               let db2 = db1(table_name \<mapsto> df3)
                               in (case db_raises e (CountRows table_name) of
                                     Some err \<Rightarrow> (Inl err, db2)
                                   | None \<Rightarrow> (Inr table_name, db2))))))"

text \<open>
  The frame that \<open>create_raw_table\<close> registers and creates the table from: the labels
  normalised, the columns without a value left out, the nulls as None.
\<close>

definition stored_frame :: "dataframe \<Rightarrow> dataframe" where
  "stored_frame df =
     where_notnull (dropna_all (df\<lparr>columns := map (\<lambda>col. LStr (normalize_col col)) (columns df)\<rparr>))"

section \<open>Reading a CSV file\<close>

text \<open>
  The parse attempts of \<open>upload_file\<close>, in the order of the source's list, each the
  keyword arguments of one \<open>pd.read_csv\<close> call.
\<close>

definition strategies :: "kwargs list" where
  "strategies =
     [[(''encoding'', KStr ''utf-8'')],
      [(''encoding'', KStr ''latin-1'')],
      [(''encoding'', KStr ''cp1252'')],
      [(''encoding'', KStr ''utf-8''), (''error_bad_lines'', KBool False),
       (''warn_bad_lines'', KBool True)],
      [(''encoding'', KStr ''latin-1''), (''error_bad_lines'', KBool False),
       (''warn_bad_lines'', KBool True)],
      [(''encoding'', KStr ''utf-8''), (''sep'', KStr '',''), (''quotechar'', KStr [CHR 0x22]),
       (''on_bad_lines'', KStr ''skip'')],
      [(''encoding'', KStr ''latin-1''), (''sep'', KStr '',''), (''quotechar'', KStr [CHR 0x22]),
       (''on_bad_lines'', KStr ''skip'')],
      [(''encoding'', KStr ''utf-8''), (''sep'', KStr '',''), (''quotechar'', KStr [CHR 0x22]),
       (''on_bad_lines'', KStr ''skip''), (''skipinitialspace'', KBool True)],
      [(''encoding'', KStr ''utf-8''), (''header'', KNone), (''on_bad_lines'', KStr ''skip'')]]"

text \<open>
  The effects of an upload that the properties below speak of, in the order in which
  they happen: the content of the upload is read and saved, a parse attempt is made
  (numbered from 0, as \<open>enumerate\<close> does), the line-by-line repair starts.
\<close>

datatype event = ReadContent | SaveUpload | TryStrategy nat | ManualRepair

text \<open>
  \<^verbatim>\<open>
  for i, strategy in enumerate(strategies):
      try:
          df = pd.read_csv(file_path, **strategy)
          break
      except Exception as e:
          continue
  \<close>
  The result is the attempts made and the frame of the one that did not raise, if any.
\<close>

fun try_strategies :: "env \<Rightarrow> string \<Rightarrow> nat \<Rightarrow> kwargs list \<Rightarrow> event list \<times> dataframe option" where
  "try_strategies e content i [] = ([], None)"
| "try_strategies e content i (strategy # rest) =
     (case read_csv e strategy content of
        Inr df \<Rightarrow> ([TryStrategy i], Some df)
      | Inl err \<Rightarrow>
          (case try_strategies e content (Suc i) rest of
             (evs, r) \<Rightarrow> (TryStrategy i # evs, r)))"

text \<open>\<open>f.readlines()\<close> on decoded text: each line ends after its newline; the last may have none.\<close>

fun readlines :: "string \<Rightarrow> string list" where
  "readlines [] = []"
| "readlines (c # cs) =
     (if c = CHR 0x0A then [c] # readlines cs
      else (case readlines cs of
              [] \<Rightarrow> [[c]]
            | l # ls \<Rightarrow> (c # l) # ls))"

text \<open>
  \<^verbatim>\<open>
  fixed_parts = parts[:expected_cols-1] + [','.join(parts[expected_cols-1:])]
  cleaned_lines.append(','.join(fixed_parts) + '\n')
  \<close>
\<close>

definition fixed_parts :: "nat \<Rightarrow> string list \<Rightarrow> string list" where
  "fixed_parts expected_cols parts =
     slice_to (int expected_cols - 1) parts
       @ [py_join '','' (slice_from (int expected_cols - 1) parts)]"

definition fixed_line :: "nat \<Rightarrow> string list \<Rightarrow> string" where
  "fixed_line expected_cols parts = py_join '','' (fixed_parts expected_cols parts) @ [CHR 0x0A]"

text \<open>
  The loop over the data lines: a line with the expected number of fields is kept as it
  is, one with more is rewritten, one with fewer is left out.
\<close>

fun clean_lines :: "nat \<Rightarrow> string list \<Rightarrow> string list" where
  "clean_lines expected_cols [] = []"
| "clean_lines expected_cols (line # rest) =
     (let parts = py_split (CHR '','') (py_strip line)
      in if length parts = expected_cols then line # clean_lines expected_cols rest
         else if length parts > expected_cols
              then fixed_line expected_cols parts # clean_lines expected_cols rest
              else clean_lines expected_cols rest)"

text \<open>
  The text written to the cleaned file. \<open>lines[0]\<close> of a file with no line raises
  IndexError, which the repair's \<open>except\<close> catches like any other exception.
\<close>

definition cleaned_text :: "string \<Rightarrow> string + string" where
  "cleaned_text text =
     (case readlines text of
        [] \<Rightarrow> Inl ''list index out of range''
      | first # rest \<Rightarrow>
          let header = py_split (CHR '','') (py_strip first);
              expected_cols = length header
          in Inr (concat (first # clean_lines expected_cols rest)))"

definition manual_repair :: "env \<Rightarrow> string \<Rightarrow> string + dataframe" where
  "manual_repair e content =
     (case cleaned_text (decode_text e content) of
        Inl err \<Rightarrow> Inl err
      | Inr cleaned \<Rightarrow> read_csv e [(''encoding'', KStr ''utf-8'')] (encode_text e cleaned))"

section \<open>The upload\<close>

text \<open>
  Every \<open>raise HTTPException\<close> of \<open>upload_file\<close> is one error:
  \<^item> \<open>NoFileProvided\<close>: 400, "No file provided";
  \<^item> \<open>UnsupportedFormat\<close>: 400, "Unsupported file format";
  \<^item> \<open>MalformedInput\<close>: 400, "Unable to parse CSV file ... Error: e" after the repair
    failed, or "Failed to read Excel file: e", with the text \<open>e\<close> of the exception;
  \<^item> \<open>EmptyDataset\<close>: 400, "File is empty";
  \<^item> \<open>PersistenceError\<close>: 500, "Failed to create table: e".
\<close>

datatype upload_error =
    NoFileProvided
  | UnsupportedFormat
  | MalformedInput string
  | EmptyDataset
  | PersistenceError string

definition allowed_extensions :: "string list" where
  "allowed_extensions = [''.csv'', ''.xlsx'', ''.xls'']"

text \<open>\<open>'.' + file.filename.split('.')[-1].lower()\<close>; the list of a split is never empty.\<close>

definition file_ext_of :: "string \<Rightarrow> string" where
  "file_ext_of filename = ''.'' @ py_lower (last (py_split (CHR ''.'') filename))"

definition read_dataframe :: "env \<Rightarrow> string \<Rightarrow> string \<Rightarrow> event list \<times> (upload_error + dataframe)" where
  "read_dataframe e file_ext content =
     (if file_ext = ''.csv'' then
        (case try_strategies e content 0 strategies of
           (evs, Some df) \<Rightarrow> (evs, Inr df)
         | (evs, None) \<Rightarrow>
             (evs @ [ManualRepair],
              case manual_repair e content of
                Inl err \<Rightarrow> Inl (MalformedInput err)
              | Inr df \<Rightarrow> Inr df))
      else if file_ext \<in> set [''.xlsx'', ''.xls''] then
        ([], case read_excel e content of
               Inl err \<Rightarrow> Inl (MalformedInput err)
             | Inr df \<Rightarrow> Inr df)
      else ([], Inl UnsupportedFormat))"

text \<open>
  The state an upload works on: the tables of the \<open>raw\<close> schema and the log of effects.
  The answer of a successful upload names the table, the number of rows of the frame and
  its labels, which \<open>create_raw_table\<close> has normalised in place.

  A file name that is None counts as the empty one: \<open>not file.filename\<close> holds for
  both. Writing the upload and the cleaned file to the disk is taken to succeed. The
  staging model that a successful upload writes is a file outside the database and
  \<open>create_staging_model\<close> never raises, so it is left out of the answer.
\<close>

record world =
  tables :: database
  log :: "event list"

record upload_result =
  res_filename :: string
  res_table_name :: string
  res_rows :: nat
  res_columns :: "string list"

definition upload_file ::
  "env \<Rightarrow> world \<Rightarrow> string \<Rightarrow> string \<Rightarrow> (upload_error + upload_result) \<times> world" where
  "upload_file e w filename content =
     (if filename = [] then (Inl NoFileProvided, w)
      else
        let file_ext = file_ext_of filename
        in if file_ext \<notin> set allowed_extensions then (Inl UnsupportedFormat, w)
           else
             (case read_dataframe e file_ext content of
                (evs, Inl err) \<Rightarrow> (Inl err, w\<lparr>log := log w @ [ReadContent, SaveUpload] @ evs\<rparr>)
              | (evs, Inr df) \<Rightarrow>
                  let w1 = w\<lparr>log := log w @ [ReadContent, SaveUpload] @ evs\<rparr>
                  in if df_empty df then (Inl EmptyDataset, w1)
                     else
                       (case create_raw_table e (tables w1) filename df of
                          (Inl err, db) \<Rightarrow> (Inl (PersistenceError err), w1\<lparr>tables := db\<rparr>)
                        | (Inr table_name, db) \<Rightarrow>
                            (Inr \<lparr>res_filename = filename,
                                  res_table_name = ''raw.'' @ table_name,
                                  res_rows = df_len df,
                                  res_columns = map normalize_col (columns df)\<rparr>,
                             w1\<lparr>tables := db\<rparr>))))"

section \<open>Splitting and joining\<close>

lemma py_split_not_Nil: "py_split sep s \<noteq> []"
  by (induction s) (auto split: list.splits)

lemma py_join_Cons: "zs \<noteq> [] \<Longrightarrow> py_join sep (x # zs) = x @ sep @ py_join sep zs"
  by (cases zs) auto

lemma py_join_merge: "ys \<noteq> [] \<Longrightarrow> py_join sep (xs @ [py_join sep ys]) = py_join sep (xs @ ys)"
  by (induction xs) (auto simp: py_join_Cons)

lemma py_join_split: "py_join [sep] (py_split sep s) = s"
proof (induction s)
  case Nil
  show ?case by simp
next
  case (Cons c cs)
  obtain p ps where sp: "py_split sep cs = p # ps"
    using py_split_not_Nil [of sep cs] by (cases "py_split sep cs") auto
  show ?case
  proof (cases "c = sep")
    case True
    with Cons sp show ?thesis by simp
  next
    case False
    with Cons sp show ?thesis by (cases ps) auto
  qed
qed

lemma slice_from_not_Nil: "n < length parts \<Longrightarrow> slice_from (int n - 1) parts \<noteq> []"
  by (cases parts) (auto simp: slice_from_def)

lemma slice_to_from: "slice_to k xs @ slice_from k xs = xs"
  by (simp add: slice_to_def slice_from_def)

lemma fixed_parts_join:
  assumes "n < length parts"
  shows "py_join '','' (fixed_parts n parts) = py_join '','' parts"
  unfolding fixed_parts_def
  using py_join_merge [OF slice_from_not_Nil [OF assms], of "'',''" "slice_to (int n - 1) parts"]
  by (simp add: slice_to_from)

lemma replace_char: "py_replace [a] [b] s = map (\<lambda>c. if c = a then b else c) s"
  by (induction s) auto

lemma clean_char_range: "\<forall>c \<in> set (map clean_char s). py_isalnum c \<or> c = CHR ''_''"
  by (auto simp: clean_char_def)

section \<open>Column names\<close>

text \<open>
  Claim C7. The normalised name of a column label is the text of the label
  (\<open>str(col)\<close>), lower-cased, with every space, hyphen and period replaced by an
  underscore. The label "First Name" becomes \<open>first_name\<close> and "Revenue-2023" becomes
  \<open>revenue_2023\<close>.
\<close>

theorem normalize_col_spec:
  "normalize_col col =
     map (\<lambda>c. if c = CHR '' '' \<or> c = CHR ''-'' \<or> c = CHR ''.'' then CHR ''_'' else c)
       (py_lower (py_str col))
   \<and> normalize_col (LStr ''First Name'') = ''first_name''
   \<and> normalize_col (LStr ''Revenue-2023'') = ''revenue_2023''"
proof -
  have a: "normalize_col col =
     map (\<lambda>c. if c = CHR '' '' \<or> c = CHR ''-'' \<or> c = CHR ''.'' then CHR ''_'' else c)
       (py_lower (py_str col))"
    by (simp add: normalize_col_def replace_char)
  have b: "normalize_col (LStr ''First Name'') = ''first_name''" by code_simp
  have c: "normalize_col (LStr ''Revenue-2023'') = ''revenue_2023''" by code_simp
  from a b c show ?thesis by blast
qed

section \<open>The rewrite of a line with too many fields\<close>

text \<open>
  Claim C9. When a line, stripped and split at the commas, has more fields than
  expected, the rewritten fields joined by commas are the stripped line again, character
  for character: the line written to the cleaned file is the stripped line and a newline.
\<close>

theorem merge_excess_is_identity:
  assumes "expected_cols < length (py_split (CHR '','') (py_strip line))"
  shows "py_join '','' (fixed_parts expected_cols (py_split (CHR '','') (py_strip line)))
           = py_strip line
       \<and> clean_lines expected_cols [line] = [py_strip line @ [CHR 0x0A]]"
  using assms fixed_parts_join [OF assms] py_join_split [of "CHR '',''" "py_strip line"]
  by (simp add: fixed_line_def Let_def)

theorem merge_excess_is_identity_witness:
  "length (py_split (CHR '','') (py_strip ''a,b,c\<newline>''))
     < length (py_split (CHR '','') (py_strip ''1,2,3,4\<newline>''))
   \<and> fixed_parts 3 (py_split (CHR '','') (py_strip ''1,2,3,4\<newline>'')) = [''1'', ''2'', ''3,4'']
   \<and> py_join '','' [''1'', ''2'', ''3,4''] = ''1,2,3,4''
   \<and> clean_lines 3 [''1,2,3,4\<newline>''] = [''1,2,3,4\<newline>'']"
proof -
  have h: "3 < length (py_split (CHR '','') (py_strip ''1,2,3,4\<newline>''))"
    by code_simp
  have "length (py_split (CHR '','') (py_strip ''a,b,c\<newline>'')) = 3"
    by code_simp
  moreover have "fixed_parts 3 (py_split (CHR '','') (py_strip ''1,2,3,4\<newline>''))
                   = [''1'', ''2'', ''3,4'']"
    by code_simp
  moreover have "py_strip ''1,2,3,4\<newline>'' = ''1,2,3,4''"
    by code_simp
  ultimately show ?thesis
    using h merge_excess_is_identity [OF h] by simp
qed

section \<open>Table names\<close>

text \<open>
  Claim C10, as the code has it. The table name is \<open>raw_\<close> followed by characters that
  are underscores or alphanumeric in the sense of \<open>str.isalnum\<close>, which holds for
  letters and digits outside ASCII too. The name that \<open>create_raw_table\<close> returns is
  this function of the file name, whatever the frame, the database and the collaborators.
\<close>

theorem table_name_chars:
  "\<exists>body. table_name_of filename = ''raw_'' @ body
      \<and> (\<forall>c \<in> set body. py_isalnum c \<or> c = CHR ''_'')
      \<and> (\<forall>t. fst (create_raw_table e db filename df) = Inr t \<longrightarrow> t = table_name_of filename)"
proof -
  have "\<forall>t. fst (create_raw_table e db filename df) = Inr t \<longrightarrow> t = table_name_of filename"
    by (auto simp: create_raw_table_def Let_def split: option.splits)
  then show ?thesis
    unfolding table_name_of_def using clean_char_range by blast
qed

theorem table_name_chars_witness:
  "\<exists>body. table_name_of ''Q1 Sales.csv'' = ''raw_'' @ body \<and> body = ''q1_sales''
      \<and> (\<forall>c \<in> set body. py_isalnum c \<or> c = CHR ''_'')
      \<and> fst (create_raw_table
               \<lparr>read_csv = (\<lambda>k c. Inl []), read_excel = (\<lambda>c. Inl []),
                decode_text = (\<lambda>c. c), encode_text = (\<lambda>c. c), db_raises = (\<lambda>s. None)\<rparr>
               Map.empty ''Q1 Sales.csv'' \<lparr>columns = [LStr ''n''], rows = [[IntV 1]]\<rparr>)
          = Inr ''raw_q1_sales''"
proof -
  have n: "table_name_of ''Q1 Sales.csv'' = ''raw_q1_sales''" by code_simp
  have c: "fst (create_raw_table
               \<lparr>read_csv = (\<lambda>k c. Inl []), read_excel = (\<lambda>c. Inl []),
                decode_text = (\<lambda>c. c), encode_text = (\<lambda>c. c), db_raises = (\<lambda>s. None)\<rparr>
               Map.empty ''Q1 Sales.csv'' \<lparr>columns = [LStr ''n''], rows = [[IntV 1]]\<rparr>)
          = Inr (table_name_of ''Q1 Sales.csv'')"
    by (simp add: create_raw_table_def Let_def)
  from table_name_chars [of "''Q1 Sales.csv''"] n c show ?thesis by auto
qed

text \<open>
  The claim as stated asks for ASCII letters and digits. The file name of the one letter
  U+00C9 (a capital E with an acute accent) and the extension \<open>.csv\<close> gives the table
  name \<open>raw_\<close> followed by U+00E9, which is not an ASCII character.
\<close>

theorem table_name_ascii_counterexample:
  "\<not> (\<forall>c \<in> set (drop 4 (table_name_of ([CHR 0xC9] @ ''.csv''))). ascii_alnum c \<or> c = CHR ''_'')"
proof -
  have "table_name_of ([CHR 0xC9] @ ''.csv'') = ''raw_'' @ [CHR 0xE9]" by code_simp
  moreover have "\<not> ascii_alnum (CHR 0xE9)" by code_simp
  moreover have "CHR 0xE9 \<noteq> CHR ''_''" by simp
  ultimately show ?thesis by simp
qed

section \<open>The order of the parse attempts\<close>

lemma upt_shift: "[i ..< i + Suc n] = i # [Suc i ..< Suc i + n]"
  by (simp add: upt_conv_Cons del: upt_Suc)

lemma try_strategies_cases:
  "((\<forall>s \<in> set ss. isl (read_csv e s c))
      \<and> try_strategies e c i ss = (map TryStrategy [i ..< i + length ss], None))
   \<or> (\<exists>k < length ss. \<not> isl (read_csv e (ss ! k) c)
          \<and> (\<forall>j < k. isl (read_csv e (ss ! j) c))
          \<and> try_strategies e c i ss
              = (map TryStrategy [i ..< i + Suc k], Some (projr (read_csv e (ss ! k) c))))"
proof (induction ss arbitrary: i)
  case Nil
  show ?case by simp
next
  case (Cons s ss)
  show ?case
  proof (cases "read_csv e s c")
    case (Inr df)
    then have "\<not> isl (read_csv e ((s # ss) ! 0) c)
          \<and> (\<forall>j < 0. isl (read_csv e ((s # ss) ! j) c))
          \<and> try_strategies e c i (s # ss)
              = (map TryStrategy [i ..< i + Suc 0], Some (projr (read_csv e ((s # ss) ! 0) c)))"
      using upt_shift [of i 0] by (simp del: upt_Suc)
    then show ?thesis by blast
  next
    case (Inl err)
    from Cons [of "Suc i"] show ?thesis
    proof
      assume a: "(\<forall>s \<in> set ss. isl (read_csv e s c))
        \<and> try_strategies e c (Suc i) ss = (map TryStrategy [Suc i ..< Suc i + length ss], None)"
      with Inl have "(\<forall>s' \<in> set (s # ss). isl (read_csv e s' c))
        \<and> try_strategies e c i (s # ss) = (map TryStrategy [i ..< i + length (s # ss)], None)"
        using upt_shift [of i "length ss"] by (simp del: upt_Suc)
      then show ?thesis by blast
    next
      assume "\<exists>k < length ss. \<not> isl (read_csv e (ss ! k) c)
          \<and> (\<forall>j < k. isl (read_csv e (ss ! j) c))
          \<and> try_strategies e c (Suc i) ss
              = (map TryStrategy [Suc i ..< Suc i + Suc k], Some (projr (read_csv e (ss ! k) c)))"
      then obtain k where k: "k < length ss" "\<not> isl (read_csv e (ss ! k) c)"
          "\<forall>j < k. isl (read_csv e (ss ! j) c)"
          "try_strategies e c (Suc i) ss
              = (map TryStrategy [Suc i ..< Suc i + Suc k], Some (projr (read_csv e (ss ! k) c)))"
        by blast
      have "\<forall>j < Suc k. isl (read_csv e ((s # ss) ! j) c)"
        using k(3) Inl by (auto simp: nth_Cons split: nat.splits)
      moreover have "try_strategies e c i (s # ss)
              = (map TryStrategy [i ..< i + Suc (Suc k)], Some (projr (read_csv e ((s # ss) ! Suc k) c)))"
        using k(4) Inl upt_shift [of i "Suc k"] by (simp del: upt_Suc)
      moreover have "Suc k < length (s # ss)" "\<not> isl (read_csv e ((s # ss) ! Suc k) c)"
        using k(1,2) by simp_all
      ultimately show ?thesis by blast
    qed
  qed
qed

lemma length_strategies: "length strategies = 9"
  by (simp add: strategies_def)

text \<open>
  Claim C3. The parse attempts of a CSV upload are made in the order of the list, from
  the first one on, and an attempt succeeds exactly when \<open>read_csv\<close> does not
  raise. If every attempt raises, all nine are made, then the repair runs and decides
  the result. Otherwise the attempts stop at the first one that does not raise: the
  attempts made are those numbered 0 to k, the frame is the one attempt k returned, and
  the repair does not run.
\<close>

theorem attempts_in_order:
  "(if \<forall>s \<in> set strategies. isl (read_csv e s content)
    then read_dataframe e ''.csv'' content
           = (map TryStrategy [0 ..< 9] @ [ManualRepair],
              case manual_repair e content of
                Inl err \<Rightarrow> Inl (MalformedInput err)
              | Inr df \<Rightarrow> Inr df)
    else \<exists>k < 9. \<not> isl (read_csv e (strategies ! k) content)
           \<and> (\<forall>j < k. isl (read_csv e (strategies ! j) content))
           \<and> read_dataframe e ''.csv'' content
               = (map TryStrategy [0 ..< Suc k],
                  Inr (projr (read_csv e (strategies ! k) content))))"
proof (cases "\<forall>s \<in> set strategies. isl (read_csv e s content)")
  case True
  with try_strategies_cases [of strategies e content 0]
  have "try_strategies e content 0 strategies = (map TryStrategy [0 ..< 9], None)"
    by (auto simp: length_strategies dest: nth_mem)
  with True show ?thesis by (simp add: read_dataframe_def)
next
  case False
  with try_strategies_cases [of strategies e content 0]
  obtain k where k: "k < 9" "\<not> isl (read_csv e (strategies ! k) content)"
      "\<forall>j < k. isl (read_csv e (strategies ! j) content)"
      "try_strategies e content 0 strategies
         = (map TryStrategy [0 ..< Suc k], Some (projr (read_csv e (strategies ! k) content)))"
    by (auto simp: length_strategies)
  from k(4) have "read_dataframe e ''.csv'' content
               = (map TryStrategy [0 ..< Suc k],
                  Inr (projr (read_csv e (strategies ! k) content)))"
    by (simp add: read_dataframe_def)
  with k False show ?thesis by auto
qed

theorem attempts_in_order_witness:
  "read_dataframe
     \<lparr>read_csv = (\<lambda>k c. Inl ''Error tokenizing data''), read_excel = (\<lambda>c. Inl []),
      decode_text = (\<lambda>c. c), encode_text = (\<lambda>c. c), db_raises = (\<lambda>s. None)\<rparr>
     ''.csv'' ''a,b\<newline>1,2,3\<newline>''
   = ([TryStrategy 0, TryStrategy 1, TryStrategy 2, TryStrategy 3, TryStrategy 4,
       TryStrategy 5, TryStrategy 6, TryStrategy 7, TryStrategy 8, ManualRepair],
      Inl (MalformedInput ''Error tokenizing data''))
   \<and> read_dataframe
     \<lparr>read_csv = (\<lambda>k c. if k = [(''encoding'', KStr ''utf-8'')] then Inl ''invalid start byte''
                        else Inr \<lparr>columns = [LStr ''a''], rows = [[IntV 1]]\<rparr>),
      read_excel = (\<lambda>c. Inl []),
      decode_text = (\<lambda>c. c), encode_text = (\<lambda>c. c), db_raises = (\<lambda>s. None)\<rparr>
     ''.csv'' ''a\<newline>1\<newline>''
   = ([TryStrategy 0, TryStrategy 1], Inr \<lparr>columns = [LStr ''a''], rows = [[IntV 1]]\<rparr>)"
proof -
  let ?e0 = "\<lparr>read_csv = (\<lambda>k c. Inl ''Error tokenizing data''), read_excel = (\<lambda>c. Inl []),
      decode_text = (\<lambda>c. c), encode_text = (\<lambda>c. c), db_raises = (\<lambda>s. None)\<rparr>"
  let ?e1 = "\<lparr>read_csv = (\<lambda>k c. if k = [(''encoding'', KStr ''utf-8'')] then Inl ''invalid start byte''
                        else Inr \<lparr>columns = [LStr ''a''], rows = [[IntV 1]]\<rparr>),
      read_excel = (\<lambda>c. Inl []),
      decode_text = (\<lambda>c. c), encode_text = (\<lambda>c. c), db_raises = (\<lambda>s. None)\<rparr>"
  have all0: "\<forall>s \<in> set strategies. isl (read_csv ?e0 s ''a,b\<newline>1,2,3\<newline>'')"
    by simp
  have ct: "cleaned_text ''a,b\<newline>1,2,3\<newline>'' = Inr ''a,b\<newline>1,2,3\<newline>''"
    by code_simp
  have m: "manual_repair ?e0 ''a,b\<newline>1,2,3\<newline>'' = Inl ''Error tokenizing data''"
    using ct by (simp add: manual_repair_def)
  have u: "map TryStrategy [0 ..< 9] = [TryStrategy 0, TryStrategy 1, TryStrategy 2, TryStrategy 3, TryStrategy 4,
       TryStrategy 5, TryStrategy 6, TryStrategy 7, TryStrategy 8]"
    by code_simp
  have a: "read_dataframe ?e0 ''.csv'' ''a,b\<newline>1,2,3\<newline>''
   = ([TryStrategy 0, TryStrategy 1, TryStrategy 2, TryStrategy 3, TryStrategy 4,
       TryStrategy 5, TryStrategy 6, TryStrategy 7, TryStrategy 8, ManualRepair],
      Inl (MalformedInput ''Error tokenizing data''))"
    using attempts_in_order [of ?e0 "''a,b\<newline>1,2,3\<newline>''"] all0 m u by simp
  have s0: "isl (read_csv ?e1 (strategies ! 0) ''a\<newline>1\<newline>'')"
    by (simp add: strategies_def)
  have s1: "\<not> isl (read_csv ?e1 (strategies ! 1) ''a\<newline>1\<newline>'')"
    by (simp add: strategies_def)
  have p1: "projr (read_csv ?e1 (strategies ! 1) ''a\<newline>1\<newline>'') = \<lparr>columns = [LStr ''a''], rows = [[IntV 1]]\<rparr>"
    by (simp add: strategies_def)
  have notall: "\<not> (\<forall>s \<in> set strategies. isl (read_csv ?e1 s ''a\<newline>1\<newline>''))"
    using s1 by (auto simp: strategies_def)
  from attempts_in_order [of ?e1 "''a\<newline>1\<newline>''"] notall
  obtain k where k: "k < 9" "\<not> isl (read_csv ?e1 (strategies ! k) ''a\<newline>1\<newline>'')"
      "\<forall>j < k. isl (read_csv ?e1 (strategies ! j) ''a\<newline>1\<newline>'')"
      "read_dataframe ?e1 ''.csv'' ''a\<newline>1\<newline>''
               = (map TryStrategy [0 ..< Suc k],
                  Inr (projr (read_csv ?e1 (strategies ! k) ''a\<newline>1\<newline>'')))"
    by (simp only: if_False) blast
  have "k \<noteq> 0" using k(2) s0 by metis
  moreover have "\<not> 1 < k" using k(3) s1 by metis
  ultimately have "k = 1" by arith
  with k(4) p1 have b: "read_dataframe ?e1 ''.csv'' ''a\<newline>1\<newline>''
   = ([TryStrategy 0, TryStrategy 1], Inr \<lparr>columns = [LStr ''a''], rows = [[IntV 1]]\<rparr>)"
    by (simp add: upt_rec)
  from a b show ?thesis by blast
qed

section \<open>The check of the file extension\<close>

text \<open>
  A file name that is not empty and whose text after the last period, lower-cased, is
  none of \<open>csv\<close>, \<open>xlsx\<close>, \<open>xls\<close> is rejected before anything else happens: the
  state, with its log, is unchanged.
\<close>

lemma bad_extension_rejected:
  "filename \<noteq> [] \<Longrightarrow> file_ext_of filename \<notin> set allowed_extensions
     \<Longrightarrow> upload_file e w filename content = (Inl UnsupportedFormat, w)"
  by (simp add: upload_file_def Let_def)

lemma read_dataframe_csv_not_unsupported:
  "snd (read_dataframe e ''.csv'' content) \<noteq> Inl UnsupportedFormat"
  by (auto simp: read_dataframe_def split: prod.splits option.splits sum.splits)

text \<open>
  Claim C4, at the file name \<open>csv\<close>. The name has no period, so it has no extension,
  but \<open>split('.')[-1]\<close> is then the whole name: the extension the code computes is
  \<open>.csv\<close>, the upload is not rejected as an unsupported format, and its content is
  read, whatever the collaborators do.
\<close>

theorem extensionless_name_accepted:
  "file_ext_of ''csv'' = ''.csv''
   \<and> fst (upload_file e w ''csv'' content) \<noteq> Inl UnsupportedFormat
   \<and> take (Suc (length (log w))) (log (snd (upload_file e w ''csv'' content))) = log w @ [ReadContent]"
proof -
  have x: "file_ext_of ''csv'' = ''.csv''" by code_simp
  have al: "''.csv'' \<in> set allowed_extensions" by (simp add: allowed_extensions_def)
  obtain evs r where rd: "read_dataframe e ''.csv'' content = (evs, r)"
    by (cases "read_dataframe e ''.csv'' content")
  have r: "r \<noteq> Inl UnsupportedFormat"
    using read_dataframe_csv_not_unsupported [of e content] rd by simp
  have "fst (upload_file e w ''csv'' content) \<noteq> Inl UnsupportedFormat"
    using x al rd r
    by (auto simp: upload_file_def Let_def split: sum.splits prod.splits)
  moreover have "take (Suc (length (log w))) (log (snd (upload_file e w ''csv'' content))) = log w @ [ReadContent]"
    using x al rd
    by (auto simp: upload_file_def Let_def split: sum.splits prod.splits)
  ultimately show ?thesis using x by blast
qed

section \<open>What an upload does to the tables\<close>

lemma df_len_stored_frame: "df_len (stored_frame df) = df_len df"
  by (simp add: stored_frame_def where_notnull_def dropna_all_def df_len_def)

lemma create_raw_table_other:
  "t \<noteq> table_name_of filename \<Longrightarrow> snd (create_raw_table e db filename df) t = db t"
  by (auto simp: create_raw_table_def Let_def split: option.splits)

lemma create_raw_table_ok:
  "create_raw_table e db filename df = (Inr t, db')
     \<Longrightarrow> t = table_name_of filename \<and> db' (table_name_of filename) = Some (stored_frame df)"
  by (auto simp: create_raw_table_def stored_frame_def Let_def split: option.splits)

lemma create_raw_table_fail:
  "create_raw_table e db filename df = (Inl err, db')
     \<Longrightarrow> db' (table_name_of filename) = db (table_name_of filename)
         \<or> db' (table_name_of filename) = None
         \<or> db' (table_name_of filename) = Some (stored_frame df)"
  by (auto simp: create_raw_table_def stored_frame_def Let_def split: option.splits)

lemma upload_file_cases:
  "upload_file e w filename content =
     (if filename = [] then (Inl NoFileProvided, w)
      else if file_ext_of filename \<notin> set allowed_extensions then (Inl UnsupportedFormat, w)
      else (case snd (read_dataframe e (file_ext_of filename) content) of
              Inl err \<Rightarrow> (Inl err, w\<lparr>log := log w @ [ReadContent, SaveUpload]
                                         @ fst (read_dataframe e (file_ext_of filename) content)\<rparr>)
            | Inr df \<Rightarrow>
                if df_empty df
                then (Inl EmptyDataset, w\<lparr>log := log w @ [ReadContent, SaveUpload]
                                         @ fst (read_dataframe e (file_ext_of filename) content)\<rparr>)
                else (case fst (create_raw_table e (tables w) filename df) of
                        Inl err \<Rightarrow> Inl (PersistenceError err)
                      | Inr table_name \<Rightarrow>
                          Inr \<lparr>res_filename = filename,
                               res_table_name = ''raw.'' @ table_name,
                               res_rows = df_len df,
                               res_columns = map normalize_col (columns df)\<rparr>,
                      w\<lparr>log := log w @ [ReadContent, SaveUpload]
                                  @ fst (read_dataframe e (file_ext_of filename) content),
                        tables := snd (create_raw_table e (tables w) filename df)\<rparr>)))"
  by (auto simp: upload_file_def Let_def split: prod.splits sum.splits)

section \<open>Empty frames\<close>

text \<open>
  Claim C5, as the code has it. When reading the file gives a frame with no rows or no
  columns, the upload fails with \<open>EmptyDataset\<close> and the tables are as they were. The
  test is made on the frame as the parser returned it, before \<open>create_raw_table\<close>
  leaves out the columns that hold no value.
\<close>

theorem empty_frame_rejected:
  assumes "filename \<noteq> []"
    and "file_ext_of filename \<in> set allowed_extensions"
    and "snd (read_dataframe e (file_ext_of filename) content) = Inr df"
    and "df_empty df"
  shows "fst (upload_file e w filename content) = Inl EmptyDataset
       \<and> tables (snd (upload_file e w filename content)) = tables w"
  using assms by (simp add: upload_file_cases)

theorem empty_frame_rejected_witness:
  "file_ext_of ''orders.csv'' \<in> set allowed_extensions
   \<and> snd (read_dataframe
        \<lparr>read_csv = (\<lambda>k c. Inr \<lparr>columns = [LStr ''a'', LStr ''b'', LStr ''c''], rows = []\<rparr>),
         read_excel = (\<lambda>c. Inl []), decode_text = (\<lambda>c. c), encode_text = (\<lambda>c. c),
         db_raises = (\<lambda>s. None)\<rparr>
        (file_ext_of ''orders.csv'') ''a,b,c\<newline>'')
      = Inr \<lparr>columns = [LStr ''a'', LStr ''b'', LStr ''c''], rows = []\<rparr>
   \<and> df_empty \<lparr>columns = [LStr ''a'', LStr ''b'', LStr ''c''], rows = []\<rparr>
   \<and> fst (upload_file
        \<lparr>read_csv = (\<lambda>k c. Inr \<lparr>columns = [LStr ''a'', LStr ''b'', LStr ''c''], rows = []\<rparr>),
         read_excel = (\<lambda>c. Inl []), decode_text = (\<lambda>c. c), encode_text = (\<lambda>c. c),
         db_raises = (\<lambda>s. None)\<rparr>
        \<lparr>tables = Map.empty, log = []\<rparr> ''orders.csv'' ''a,b,c\<newline>'')
      = Inl EmptyDataset
   \<and> tables (snd (upload_file
        \<lparr>read_csv = (\<lambda>k c. Inr \<lparr>columns = [LStr ''a'', LStr ''b'', LStr ''c''], rows = []\<rparr>),
         read_excel = (\<lambda>c. Inl []), decode_text = (\<lambda>c. c), encode_text = (\<lambda>c. c),
         db_raises = (\<lambda>s. None)\<rparr>
        \<lparr>tables = Map.empty, log = []\<rparr> ''orders.csv'' ''a,b,c\<newline>''))
      = Map.empty"
proof -
  let ?e = "\<lparr>read_csv = (\<lambda>k c. Inr \<lparr>columns = [LStr ''a'', LStr ''b'', LStr ''c''], rows = []\<rparr>),
         read_excel = (\<lambda>c. Inl []), decode_text = (\<lambda>c. c), encode_text = (\<lambda>c. c),
         db_raises = (\<lambda>s. None)\<rparr>"
  let ?df = "\<lparr>columns = [LStr ''a'', LStr ''b'', LStr ''c''], rows = []\<rparr>"
  have n: "''orders.csv'' \<noteq> []" by simp
  have x: "file_ext_of ''orders.csv'' = ''.csv''" by code_simp
  have a: "file_ext_of ''orders.csv'' \<in> set allowed_extensions"
    by (simp add: x allowed_extensions_def)
  have r: "snd (read_dataframe ?e (file_ext_of ''orders.csv'') ''a,b,c\<newline>'') = Inr ?df"
    by (simp add: x read_dataframe_def strategies_def)
  have d: "df_empty ?df" by (simp add: df_empty_def)
  from empty_frame_rejected [OF n a r d, of "\<lparr>tables = Map.empty, log = []\<rparr>"] a r d
  show ?thesis by simp
qed

text \<open>
  The claim as stated also covers a frame whose columns are all left out later. A file
  with the header \<open>a,b\<close> and one line of two empty fields is read as one row of two
  nulls: the frame is not empty, \<open>create_raw_table\<close> is called, and the frame it
  registers has no column. The upload then succeeds, or fails with a persistence error
  if DuckDB raises on a frame without columns; it does not fail with \<open>EmptyDataset\<close>.
\<close>

theorem all_null_frame_counterexample:
  "snd (read_dataframe
        \<lparr>read_csv = (\<lambda>k c. Inr \<lparr>columns = [LStr ''a'', LStr ''b''], rows = [[Null, Null]]\<rparr>),
         read_excel = (\<lambda>c. Inl []), decode_text = (\<lambda>c. c), encode_text = (\<lambda>c. c),
         db_raises = (\<lambda>s. None)\<rparr>
        ''.csv'' ''a,b\<newline>,\<newline>'')
      = Inr \<lparr>columns = [LStr ''a'', LStr ''b''], rows = [[Null, Null]]\<rparr>
   \<and> columns (stored_frame \<lparr>columns = [LStr ''a'', LStr ''b''], rows = [[Null, Null]]\<rparr>) = []
   \<and> fst (upload_file
        \<lparr>read_csv = (\<lambda>k c. Inr \<lparr>columns = [LStr ''a'', LStr ''b''], rows = [[Null, Null]]\<rparr>),
         read_excel = (\<lambda>c. Inl []), decode_text = (\<lambda>c. c), encode_text = (\<lambda>c. c),
         db_raises = (\<lambda>s. None)\<rparr>
        \<lparr>tables = Map.empty, log = []\<rparr> ''t.csv'' ''a,b\<newline>,\<newline>'')
      = Inr \<lparr>res_filename = ''t.csv'', res_table_name = ''raw.raw_t'', res_rows = 1,
             res_columns = [''a'', ''b'']\<rparr>
   \<and> fst (upload_file
        \<lparr>read_csv = (\<lambda>k c. Inr \<lparr>columns = [LStr ''a'', LStr ''b''], rows = [[Null, Null]]\<rparr>),
         read_excel = (\<lambda>c. Inl []), decode_text = (\<lambda>c. c), encode_text = (\<lambda>c. c),
         db_raises = (\<lambda>s. case s of
                           Register df \<Rightarrow> if columns df = [] then Some ''no columns'' else None
                         | _ \<Rightarrow> None)\<rparr>
        \<lparr>tables = Map.empty, log = []\<rparr> ''t.csv'' ''a,b\<newline>,\<newline>'')
      = Inl (PersistenceError ''no columns'')"
  by code_simp

section \<open>A failed upload\<close>

text \<open>
  Claim C2, as the code has it. When an upload fails, every table other than the one
  named after the file is as it was; if the failure is not a persistence error, all
  tables are as they were; and the table named after the file is as it was, or absent
  (dropped and not created again), or the frame of the new file (created, when the
  count of its rows raised).
\<close>

theorem failed_upload_table_state:
  assumes "upload_file e w filename content = (Inl err, w')"
  shows "(\<forall>t. t \<noteq> table_name_of filename \<longrightarrow> tables w' t = tables w t)
       \<and> ((\<forall>msg. err \<noteq> PersistenceError msg) \<longrightarrow> tables w' = tables w)
       \<and> (tables w' (table_name_of filename) = tables w (table_name_of filename)
          \<or> tables w' (table_name_of filename) = None
          \<or> (\<exists>df. snd (read_dataframe e (file_ext_of filename) content) = Inr df
                \<and> tables w' (table_name_of filename) = Some (stored_frame df)))"
proof -
  have other: "\<forall>t. t \<noteq> table_name_of filename \<longrightarrow> tables w' t = tables w t"
    using assms create_raw_table_other [of _ filename e "tables w"]
    by (auto simp: upload_file_cases split: if_splits sum.splits)
  have nonpers: "(\<forall>msg. err \<noteq> PersistenceError msg) \<longrightarrow> tables w' = tables w"
    using assms by (auto simp: upload_file_cases split: if_splits sum.splits)
  have this_table: "tables w' (table_name_of filename) = tables w (table_name_of filename)
          \<or> tables w' (table_name_of filename) = None
          \<or> (\<exists>df. snd (read_dataframe e (file_ext_of filename) content) = Inr df
                \<and> tables w' (table_name_of filename) = Some (stored_frame df))"
  proof -
    from assms have "tables w' = tables w
        \<or> (\<exists>df msg. snd (read_dataframe e (file_ext_of filename) content) = Inr df
              \<and> fst (create_raw_table e (tables w) filename df) = Inl msg
              \<and> tables w' = snd (create_raw_table e (tables w) filename df))"
      by (auto simp: upload_file_cases split: if_splits sum.splits)
    then show ?thesis
    proof
      assume "tables w' = tables w"
      then show ?thesis by simp
    next
      assume "\<exists>df msg. snd (read_dataframe e (file_ext_of filename) content) = Inr df
              \<and> fst (create_raw_table e (tables w) filename df) = Inl msg
              \<and> tables w' = snd (create_raw_table e (tables w) filename df)"
      then obtain df msg where df: "snd (read_dataframe e (file_ext_of filename) content) = Inr df"
          and cr: "fst (create_raw_table e (tables w) filename df) = Inl msg"
          and w': "tables w' = snd (create_raw_table e (tables w) filename df)"
        by blast
      from cr have "create_raw_table e (tables w) filename df = (Inl msg, tables w')"
        using w' by (cases "create_raw_table e (tables w) filename df") simp
      from create_raw_table_fail [OF this] df show ?thesis by blast
    qed
  qed
  from other nonpers this_table show ?thesis by blast
qed

theorem failed_upload_table_state_witness:
  "fst (upload_file
        \<lparr>read_csv = (\<lambda>k c. Inr \<lparr>columns = [LStr ''Id''], rows = [[IntV 7]]\<rparr>),
         read_excel = (\<lambda>c. Inl []), decode_text = (\<lambda>c. c), encode_text = (\<lambda>c. c),
         db_raises = (\<lambda>s. case s of CountRows t \<Rightarrow> Some ''Connection Error'' | _ \<Rightarrow> None)\<rparr>
        \<lparr>tables = [''raw_t'' \<mapsto> \<lparr>columns = [LStr ''id''], rows = [[IntV 1], [IntV 2]]\<rparr>,
                   ''raw_keep'' \<mapsto> \<lparr>columns = [LStr ''k''], rows = [[IntV 0]]\<rparr>], log = []\<rparr>
        ''t.csv'' ''Id\<newline>7\<newline>'')
      = Inl (PersistenceError ''Connection Error'')
   \<and> tables (snd (upload_file
        \<lparr>read_csv = (\<lambda>k c. Inr \<lparr>columns = [LStr ''Id''], rows = [[IntV 7]]\<rparr>),
         read_excel = (\<lambda>c. Inl []), decode_text = (\<lambda>c. c), encode_text = (\<lambda>c. c),
         db_raises = (\<lambda>s. case s of CountRows t \<Rightarrow> Some ''Connection Error'' | _ \<Rightarrow> None)\<rparr>
        \<lparr>tables = [''raw_t'' \<mapsto> \<lparr>columns = [LStr ''id''], rows = [[IntV 1], [IntV 2]]\<rparr>,
                   ''raw_keep'' \<mapsto> \<lparr>columns = [LStr ''k''], rows = [[IntV 0]]\<rparr>], log = []\<rparr>
        ''t.csv'' ''Id\<newline>7\<newline>'')) ''raw_keep''
      = Some \<lparr>columns = [LStr ''k''], rows = [[IntV 0]]\<rparr>
   \<and> tables (snd (upload_file
        \<lparr>read_csv = (\<lambda>k c. Inr \<lparr>columns = [LStr ''Id''], rows = [[IntV 7]]\<rparr>),
         read_excel = (\<lambda>c. Inl []), decode_text = (\<lambda>c. c), encode_text = (\<lambda>c. c),
         db_raises = (\<lambda>s. case s of CountRows t \<Rightarrow> Some ''Connection Error'' | _ \<Rightarrow> None)\<rparr>
        \<lparr>tables = [''raw_t'' \<mapsto> \<lparr>columns = [LStr ''id''], rows = [[IntV 1], [IntV 2]]\<rparr>,
                   ''raw_keep'' \<mapsto> \<lparr>columns = [LStr ''k''], rows = [[IntV 0]]\<rparr>], log = []\<rparr>
        ''t.csv'' ''Id\<newline>7\<newline>'')) ''raw_t''
      = Some \<lparr>columns = [LStr ''id''], rows = [[IntV 7]]\<rparr>"
proof -
  let ?e = "\<lparr>read_csv = (\<lambda>k c. Inr \<lparr>columns = [LStr ''Id''], rows = [[IntV 7]]\<rparr>),
         read_excel = (\<lambda>c. Inl []), decode_text = (\<lambda>c. c), encode_text = (\<lambda>c. c),
         db_raises = (\<lambda>s. case s of CountRows t \<Rightarrow> Some ''Connection Error'' | _ \<Rightarrow> None)\<rparr>"
  let ?w = "\<lparr>tables = [''raw_t'' \<mapsto> \<lparr>columns = [LStr ''id''], rows = [[IntV 1], [IntV 2]]\<rparr>,
                   ''raw_keep'' \<mapsto> \<lparr>columns = [LStr ''k''], rows = [[IntV 0]]\<rparr>], log = []\<rparr>"
  let ?u = "upload_file ?e ?w ''t.csv'' ''Id\<newline>7\<newline>''"
  have f: "fst ?u = Inl (PersistenceError ''Connection Error'')" by code_simp
  then have h: "?u = (Inl (PersistenceError ''Connection Error''), snd ?u)"
    by (simp add: prod_eq_iff)
  have tn: "table_name_of ''t.csv'' = ''raw_t''" by code_simp
  have keep: "tables ?w ''raw_keep'' = Some \<lparr>columns = [LStr ''k''], rows = [[IntV 0]]\<rparr>"
    by simp
  have new: "tables (snd ?u) ''raw_t'' = Some \<lparr>columns = [LStr ''id''], rows = [[IntV 7]]\<rparr>"
    by code_simp
  from failed_upload_table_state [OF h]
  have "\<forall>t. t \<noteq> table_name_of ''t.csv'' \<longrightarrow> tables (snd ?u) t = tables ?w t"
    by blast
  then have "tables (snd ?u) ''raw_keep'' = tables ?w ''raw_keep''"
    unfolding tn by simp
  with keep have "tables (snd ?u) ''raw_keep'' = Some \<lparr>columns = [LStr ''k''], rows = [[IntV 0]]\<rparr>"
    by simp
  with f new show ?thesis by blast
qed

text \<open>
  The claim as stated says that a failed upload leaves the table as it was. With a table
  \<open>raw_t\<close> of two rows in place and a \<open>CREATE TABLE\<close> that raises, the upload of
  \<open>t.csv\<close> fails and \<open>raw_t\<close> is gone: the \<open>DROP TABLE\<close> before it was committed.
\<close>

theorem failed_create_counterexample:
  "fst (upload_file
        \<lparr>read_csv = (\<lambda>k c. Inr \<lparr>columns = [LStr ''id''], rows = [[IntV 7]]\<rparr>),
         read_excel = (\<lambda>c. Inl []), decode_text = (\<lambda>c. c), encode_text = (\<lambda>c. c),
         db_raises = (\<lambda>s. case s of CreateTable t df \<Rightarrow> Some ''IO Error'' | _ \<Rightarrow> None)\<rparr>
        \<lparr>tables = [''raw_t'' \<mapsto> \<lparr>columns = [LStr ''id''], rows = [[IntV 1], [IntV 2]]\<rparr>], log = []\<rparr>
        ''t.csv'' ''id\<newline>7\<newline>'')
      = Inl (PersistenceError ''IO Error'')
   \<and> tables \<lparr>tables = [''raw_t'' \<mapsto> \<lparr>columns = [LStr ''id''], rows = [[IntV 1], [IntV 2]]\<rparr>], log = []\<rparr>
        ''raw_t''
      = Some \<lparr>columns = [LStr ''id''], rows = [[IntV 1], [IntV 2]]\<rparr>
   \<and> tables (snd (upload_file
        \<lparr>read_csv = (\<lambda>k c. Inr \<lparr>columns = [LStr ''id''], rows = [[IntV 7]]\<rparr>),
         read_excel = (\<lambda>c. Inl []), decode_text = (\<lambda>c. c), encode_text = (\<lambda>c. c),
         db_raises = (\<lambda>s. case s of CreateTable t df \<Rightarrow> Some ''IO Error'' | _ \<Rightarrow> None)\<rparr>
        \<lparr>tables = [''raw_t'' \<mapsto> \<lparr>columns = [LStr ''id''], rows = [[IntV 1], [IntV 2]]\<rparr>], log = []\<rparr>
        ''t.csv'' ''id\<newline>7\<newline>''))
        ''raw_t''
      = None"
  by code_simp

section \<open>Uploading a file again\<close>

text \<open>
  Claim C8. When an upload succeeds and a table of the derived name existed before, the
  table is afterwards the frame of the new file (its labels normalised, its columns
  without a value left out): it has as many rows as the new file's frame, which is the
  number of rows the answer reports, and nothing of the table that was there before.
\<close>

theorem reupload_replaces:
  assumes "upload_file e w filename content = (Inr res, w')"
    and "tables w (table_name_of filename) = Some old"
  shows "\<exists>df. snd (read_dataframe e (file_ext_of filename) content) = Inr df
           \<and> tables w' (table_name_of filename) = Some (stored_frame df)
           \<and> df_len (stored_frame df) = df_len df
           \<and> res_rows res = df_len df
           \<and> res_table_name res = ''raw.'' @ table_name_of filename"
proof -
  from assms(1) obtain df t where df: "snd (read_dataframe e (file_ext_of filename) content) = Inr df"
      and cr: "fst (create_raw_table e (tables w) filename df) = Inr t"
      and w': "tables w' = snd (create_raw_table e (tables w) filename df)"
      and res: "res_rows res = df_len df" "res_table_name res = ''raw.'' @ t"
    by (auto simp: upload_file_cases split: if_splits sum.splits)
  from cr have "create_raw_table e (tables w) filename df = (Inr t, tables w')"
    using w' by (cases "create_raw_table e (tables w) filename df") simp
  from create_raw_table_ok [OF this] df res df_len_stored_frame [of df]
  show ?thesis by auto
qed

theorem reupload_replaces_witness:
  "tables \<lparr>tables = [''raw_t'' \<mapsto> \<lparr>columns = [LStr ''id''], rows = [[IntV 1], [IntV 2]]\<rparr>], log = []\<rparr>
      (table_name_of ''t.csv'')
     = Some \<lparr>columns = [LStr ''id''], rows = [[IntV 1], [IntV 2]]\<rparr>
   \<and> (\<exists>res w'. upload_file
          \<lparr>read_csv = (\<lambda>k c. Inr \<lparr>columns = [LStr ''Id''], rows = [[IntV 7]]\<rparr>),
           read_excel = (\<lambda>c. Inl []), decode_text = (\<lambda>c. c), encode_text = (\<lambda>c. c),
           db_raises = (\<lambda>s. None)\<rparr>
          \<lparr>tables = [''raw_t'' \<mapsto> \<lparr>columns = [LStr ''id''], rows = [[IntV 1], [IntV 2]]\<rparr>], log = []\<rparr>
          ''t.csv'' ''Id\<newline>7\<newline>'' = (Inr res, w')
        \<and> tables w' ''raw_t'' = Some \<lparr>columns = [LStr ''id''], rows = [[IntV 7]]\<rparr>
        \<and> res_rows res = 1
        \<and> res_table_name res = ''raw.raw_t'')"
proof -
  let ?e = "\<lparr>read_csv = (\<lambda>k c. Inr \<lparr>columns = [LStr ''Id''], rows = [[IntV 7]]\<rparr>),
           read_excel = (\<lambda>c. Inl []), decode_text = (\<lambda>c. c), encode_text = (\<lambda>c. c),
           db_raises = (\<lambda>s. None)\<rparr>"
  let ?w = "\<lparr>tables = [''raw_t'' \<mapsto> \<lparr>columns = [LStr ''id''], rows = [[IntV 1], [IntV 2]]\<rparr>], log = []\<rparr>"
  let ?u = "upload_file ?e ?w ''t.csv'' ''Id\<newline>7\<newline>''"
  let ?res = "\<lparr>res_filename = ''t.csv'', res_table_name = ''raw.raw_t'', res_rows = 1,
               res_columns = [''id'']\<rparr>"
  let ?df = "\<lparr>columns = [LStr ''Id''], rows = [[IntV 7]]\<rparr>"
  have f: "fst ?u = Inr ?res" by code_simp
  then have h: "?u = (Inr ?res, snd ?u)"
    by (simp add: prod_eq_iff)
  have tn: "table_name_of ''t.csv'' = ''raw_t''" by code_simp
  have old: "tables ?w (table_name_of ''t.csv'')
      = Some \<lparr>columns = [LStr ''id''], rows = [[IntV 1], [IntV 2]]\<rparr>"
    by (simp add: tn)
  have x: "file_ext_of ''t.csv'' = ''.csv''" by code_simp
  have r: "snd (read_dataframe ?e (file_ext_of ''t.csv'') ''Id\<newline>7\<newline>'') = Inr ?df"
    by (simp add: x read_dataframe_def strategies_def)
  have sf: "stored_frame ?df = \<lparr>columns = [LStr ''id''], rows = [[IntV 7]]\<rparr>"
    by code_simp
  from reupload_replaces [OF h old] r
  have "tables (snd ?u) (table_name_of ''t.csv'') = Some (stored_frame ?df)
         \<and> res_rows ?res = df_len ?df
         \<and> res_table_name ?res = ''raw.'' @ table_name_of ''t.csv''"
    by auto
  then have "tables (snd ?u) ''raw_t'' = Some \<lparr>columns = [LStr ''id''], rows = [[IntV 7]]\<rparr>
         \<and> res_rows ?res = 1 \<and> res_table_name ?res = ''raw.raw_t''"
    by (simp add: tn sf df_len_def)
  with h old show ?thesis by blast
qed

section \<open>The line-by-line repair\<close>








end
